theory Spec2Isabelle
  imports Complex_Main "HOL-Library.AList"
begin

section \<open>Study Assistant API: a shallow embedding of \<open>main.py\<close>\<close>

text \<open>
  The request handlers of \<open>main.py\<close> are embedded as HOL functions. Everything a handler
  takes from outside the file is a field of the record \<open>world\<close>: the two configured URLs,
  the outcome of \<open>requests.post(...)\<close> followed by \<open>r.json()\<close>, the store gateway
  \<open>get_documents\<close> (module \<open>database\<close>), and the builtin \<open>str\<close> on stored values.
  Every handler returns the list of outside calls it made, in order, and either the
  dict it returns, which the framework sends as the JSON body of a 200 response, or the
  error that ends the request. The framework's rendering of the returned dict can fail;
  it is the function \<open>json_response\<close>, and it is part of \<open>detect_language\<close> and
  \<open>ask_question\<close>.

  Python strings are modelled as \<open>string\<close>; a \<open>char\<close> stands for a code point below 256
  (Latin-1), so \<open>length\<close> counts code points as Python's \<open>len\<close> does on such text.
\<close>

subsection \<open>Python values\<close>

text \<open>
  A Python \<open>float\<close>. \<open>json.loads\<close>, which \<open>r.json()\<close> calls, reads the literals \<open>NaN\<close>,
  \<open>Infinity\<close> and \<open>-Infinity\<close> as the three floats that are not numbers of JSON.
\<close>

datatype pyfloat =
    Finite rat
  | NaN
  | PosInf
  | NegInf

datatype pyval =
    PNone
  | PBool bool
  | PInt int
  | PFloat pyfloat
  | PStr string
  | PList "pyval list"
  | PDict "(string \<times> pyval) list"
  | ObjectId string

type_synonym pydict = "(string \<times> pyval) list"

text \<open>An exception is carried by its message \<open>str(e)\<close>; \<open>Inl\<close> is a raise.\<close>

type_synonym 'a raises = "string + 'a"

subsection \<open>String builtins: \<open>str.strip\<close>, \<open>str.split\<close>, \<open>str.lower\<close>, \<open>str.join\<close>, \<open>re.split\<close>\<close>

text \<open>
  The code points below 256 that Python treats as whitespace, in \<open>str.strip()\<close>,
  \<open>str.split()\<close> and the regular expression class \<open>\s\<close> alike.
\<close>

definition is_space :: "char \<Rightarrow> bool" where
  "is_space c = (c \<in> set [CHR 0x09, CHR 0x0A, CHR 0x0B, CHR 0x0C, CHR 0x0D,
                          CHR 0x1C, CHR 0x1D, CHR 0x1E, CHR 0x1F, CHR 0x20,
                          CHR 0x85, CHR 0xA0])"

text \<open>The character class \<open>[.!?]\<close> of the sentence pattern.\<close>

definition is_punct :: "char \<Rightarrow> bool" where
  "is_punct c = (c = CHR ''.'' \<or> c = CHR ''!'' \<or> c = CHR ''?'')"

definition py_strip :: "string \<Rightarrow> string" where
  "py_strip s = rev (dropWhile is_space (rev (dropWhile is_space s)))"

text \<open>
  \<open>s.split()\<close>: the maximal runs of non-whitespace characters, left to right. \<open>acc\<close> is the
  run being read, reversed.
\<close>

fun split_ws :: "string \<Rightarrow> string \<Rightarrow> string list" where
  "split_ws acc [] = (if acc = [] then [] else [rev acc])"
| "split_ws acc (c # cs) =
     (if is_space c then (if acc = [] then split_ws [] cs else rev acc # split_ws [] cs)
      else split_ws (c # acc) cs)"

definition py_split :: "string \<Rightarrow> string list" where
  "py_split s = split_ws [] s"

definition lower_char :: "char \<Rightarrow> char" where
  "lower_char c =
     (let n = (of_char c :: nat)
      in if (65 \<le> n \<and> n \<le> 90) \<or> (192 \<le> n \<and> n \<le> 222 \<and> n \<noteq> 215)
         then char_of (n + 32) else c)"

definition py_lower :: "string \<Rightarrow> string" where
  "py_lower s = map lower_char s"

fun py_join :: "string \<Rightarrow> string list \<Rightarrow> string" where
  "py_join sep [] = []"
| "py_join sep [x] = x"
| "py_join sep (x # y # ys) = x @ sep @ py_join sep (y # ys)"

text \<open>
  \<open>re.split(r"(?<=[.!?])\s+", text)\<close>. The pattern matches at a position whose previous
  character is one of \<open>.!?\<close> and whose own character is whitespace, and then takes the
  whole run of whitespace. \<open>p\<close> says that the previous character is one of \<open>.!?\<close>; \<open>acc\<close>
  is the piece being read, reversed. A match closes the piece, the matched run is
  dropped, and the scan goes on behind it. The rest after the last match is the last
  piece.
\<close>

function re_split_go :: "bool \<Rightarrow> string \<Rightarrow> string \<Rightarrow> string list" where
  "re_split_go p acc [] = [rev acc]"
| "re_split_go p acc (c # cs) =
     (if p \<and> is_space c then rev acc # re_split_go False [] (dropWhile is_space cs)
      else re_split_go (is_punct c) (c # acc) cs)"
  by pat_completeness auto
termination
  by (relation "measure (\<lambda>(p, acc, cs). length cs)")
     (auto simp: less_Suc_eq_le length_dropWhile_le)

definition re_split :: "string \<Rightarrow> string list" where
  "re_split s = re_split_go False [] s"

subsection \<open>The outside world of a handler\<close>

text \<open>
  \<open>post url data\<close> is \<open>requests.post(url, data=data)\<close> followed by \<open>r.json()\<close>: the outer
  \<open>Inl\<close> is a request that raised, the inner \<open>Inl\<close> a body that \<open>r.json()\<close> could not
  parse. \<open>get_documents\<close> and \<open>py_str\<close> are not defined in \<open>main.py\<close>.
\<close>

record world =
  LIBRE_URL :: string
  TRANSLATE_URL :: string
  post :: "string \<Rightarrow> (string \<times> string) list \<Rightarrow> (pyval raises) raises"
  get_documents :: "string \<Rightarrow> pyval \<Rightarrow> int \<Rightarrow> (pydict list) raises"
  py_str :: "pyval \<Rightarrow> string"

datatype call =
    Post string "(string \<times> string) list"
  | GetDocuments string pyval int

text \<open>
  \<open>HTTPException\<close> is the exception the handlers raise themselves; \<open>Unhandled\<close> is any
  other exception that leaves a handler.
\<close>

datatype http_error =
    HTTPException nat string
  | Unhandled string

type_synonym response = "call list \<times> (http_error + pydict)"

record TextIn =
  ti_text :: string
  ti_target_lang :: "string option"

record SummarizeIn =
  si_text :: string
  si_target_lang :: "string option"

record QuestionIn =
  question :: string
  q_target_lang :: "string option"

text \<open>\<open>x or default\<close> on an \<open>Optional[str]\<close>.\<close>

fun or_default :: "string option \<Rightarrow> string \<Rightarrow> string" where
  "or_default None dflt = dflt"
| "or_default (Some s) dflt = (if s \<noteq> [] then s else dflt)"

text \<open>\<open>d.get(k, default)\<close> on a dict.\<close>

definition dict_get :: "pydict \<Rightarrow> string \<Rightarrow> pyval \<Rightarrow> pyval" where
  "dict_get d k dflt = (case map_of d k of Some v \<Rightarrow> v | None \<Rightarrow> dflt)"

subsection \<open>Rendering a returned dict\<close>

text \<open>
  The dict that a handler returns is rendered by the framework with
  \<open>json.dumps(..., allow_nan=False)\<close>, after the handler and outside its \<open>try\<close> blocks.
  This raises \<open>ValueError\<close> when a float that is not finite occurs anywhere in the value,
  and the request then ends with status 500. An \<open>ObjectId\<close> cannot be rendered either.
\<close>

primrec json_renderable :: "pyval \<Rightarrow> bool" where
  "json_renderable PNone = True"
| "json_renderable (PBool b) = True"
| "json_renderable (PInt n) = True"
| "json_renderable (PFloat x) = (case x of Finite r \<Rightarrow> True | _ \<Rightarrow> False)"
| "json_renderable (PStr s) = True"
| "json_renderable (PList vs) = list_all id (map json_renderable vs)"
| "json_renderable (PDict d) = list_all snd (map (map_prod id json_renderable) d)"
| "json_renderable (ObjectId h) = False"

definition json_response :: "pydict \<Rightarrow> http_error + pydict" where
  "json_response body =
     (if json_renderable (PDict body) then Inr body else Inl (Unhandled ''ValueError''))"

subsection \<open>\<open>POST /api/detect\<close>\<close>

definition detect_default :: pydict where
  "detect_default = [(''language'', PStr ''auto''), (''confidence'', PInt 0)]"

text \<open>
  \<open>data[0].get(...)\<close> raises \<open>AttributeError\<close> when \<open>data[0]\<close> is not a dict; the
  \<open>except Exception\<close> swallows it like every other exception of the \<open>try\<close> block. The
  values of \<open>language\<close> and \<open>confidence\<close> are passed on as the service gave them.
\<close>

definition detect_language :: "world \<Rightarrow> TextIn \<Rightarrow> response" where
  "detect_language w payload =
     (let data = [(''q'', ti_text payload)]
      in ([Post (LIBRE_URL w) data],
          json_response
            (case post w (LIBRE_URL w) data of
               Inr (Inr (PList (PDict d0 # rest))) \<Rightarrow>
                 [(''language'', dict_get d0 ''language'' (PStr ''auto'')),
                  (''confidence'', dict_get d0 ''confidence'' (PInt 0))]
             | _ \<Rightarrow> detect_default)))"

subsection \<open>\<open>POST /api/translate\<close>\<close>

definition translate_text :: "world \<Rightarrow> TextIn \<Rightarrow> response" where
  "translate_text w payload =
     (let target = or_default (ti_target_lang payload) ''en'';
          data = [(''q'', ti_text payload), (''source'', ''auto''), (''target'', target)];
          fallthrough = [(''translated'', PStr (ti_text payload)), (''target'', PStr target)]
      in ([Post (TRANSLATE_URL w) data],
          case post w (TRANSLATE_URL w) data of
            Inl e \<Rightarrow> Inl (HTTPException 500 e)
          | Inr (Inl e) \<Rightarrow> Inl (HTTPException 500 e)
          | Inr (Inr (PDict d)) \<Rightarrow>
              (case map_of d ''translatedText'' of
                 Some v \<Rightarrow> Inr [(''translated'', v), (''target'', PStr target)]
               | None \<Rightarrow> Inr fallthrough)
          | Inr (Inr _) \<Rightarrow> Inr fallthrough))"

subsection \<open>\<open>GET /api/memory\<close> and \<open>GET /api/conversation\<close>\<close>

text \<open>\<open>if "_id" in d: d["id"] = str(d.pop("_id"))\<close>\<close>

definition convert_id :: "world \<Rightarrow> pydict \<Rightarrow> pydict" where
  "convert_id w d =
     (case map_of d ''_id'' of
        None \<Rightarrow> d
      | Some v \<Rightarrow> AList.update ''id'' (PStr (py_str w v)) (AList.delete ''_id'' d))"

definition memory_filter :: "string option \<Rightarrow> pyval" where
  "memory_filter tag =
     (case tag of
        Some t \<Rightarrow> if t \<noteq> [] then PDict [(''tags'', PDict [(''$in'', PList [PStr t])])]
                  else PDict []
      | None \<Rightarrow> PDict [])"

definition list_memory :: "world \<Rightarrow> string option \<Rightarrow> int \<Rightarrow> response" where
  "list_memory w tag limit =
     (let filter_dict = memory_filter tag
      in ([GetDocuments ''memorynote'' filter_dict limit],
          case get_documents w ''memorynote'' filter_dict limit of
            Inl e \<Rightarrow> Inl (HTTPException 500 e)
          | Inr docs \<Rightarrow> Inr [(''items'', PList (map (PDict \<circ> convert_id w) docs))]))"

definition conversation_filter :: "string option \<Rightarrow> pyval" where
  "conversation_filter session_id =
     (case session_id of
        Some sid \<Rightarrow> if sid \<noteq> [] then PDict [(''session_id'', PStr sid)] else PDict []
      | None \<Rightarrow> PDict [])"

definition get_conversation :: "world \<Rightarrow> string option \<Rightarrow> int \<Rightarrow> response" where
  "get_conversation w session_id limit =
     (let filter_dict = conversation_filter session_id
      in ([GetDocuments ''conversationturn'' filter_dict limit],
          case get_documents w ''conversationturn'' filter_dict limit of
            Inl e \<Rightarrow> Inl (HTTPException 500 e)
          | Inr docs \<Rightarrow> Inr [(''items'', PList (map (PDict \<circ> convert_id w) docs))]))"

subsection \<open>Best-effort translation of a finished text\<close>

text \<open>
  The block \<open>if payload.target_lang: try: ... except Exception: pass\<close> that ends both
  \<open>summarize\<close> and \<open>ask_question\<close>: the text is replaced by \<open>data["translatedText"]\<close>
  when the service answers with a dict that has this key, and is kept otherwise.
\<close>

definition translate_best_effort :: "world \<Rightarrow> string option \<Rightarrow> string \<Rightarrow> call list \<times> pyval" where
  "translate_best_effort w target_lang s =
     (case target_lang of
        None \<Rightarrow> ([], PStr s)
      | Some t \<Rightarrow>
          if t \<noteq> []
          then (let data = [(''q'', s), (''source'', ''auto''), (''target'', t)]
                in ([Post (TRANSLATE_URL w) data],
                    case post w (TRANSLATE_URL w) data of
                      Inr (Inr (PDict d)) \<Rightarrow> dict_get d ''translatedText'' (PStr s)
                    | _ \<Rightarrow> PStr s))
          else ([], PStr s))"

subsection \<open>\<open>POST /api/summarize\<close>\<close>

text \<open>The summary before translation, from the stripped text.\<close>

definition extractive_summary :: "string \<Rightarrow> string" where
  "extractive_summary text =
     (let sentences = re_split text
      in if length sentences \<le> 3 then text
         else (let mid = length sentences div 2;
                   chosen = [sentences ! 0, sentences ! mid, last sentences]
               in py_join '' '' chosen))"

definition summarize :: "world \<Rightarrow> SummarizeIn \<Rightarrow> response" where
  "summarize w payload =
     (let text = py_strip (si_text payload)
      in if text = [] then ([], Inl (HTTPException 400 ''Text is required''))
         else (let summary = extractive_summary text;
                   (calls, summary') = translate_best_effort w (si_target_lang payload) summary
               in (calls, Inr [(''summary'', summary')])))"

subsection \<open>\<open>POST /api/ask\<close>\<close>

definition keywords_of :: "string \<Rightarrow> string list" where
  "keywords_of q = map py_lower (filter (\<lambda>w. length w > 3) (py_split q))"

definition ask_filter :: "string list \<Rightarrow> pyval" where
  "ask_filter keywords =
     (if keywords \<noteq> []
      then PDict [(''$or'',
             PList (map (\<lambda>k. PDict [(''content'',
                                      PDict [(''$regex'', PStr k), (''$options'', PStr ''i'')])])
                        keywords))]
      else PDict [])"

text \<open>The \<open>try\<close> block around the retrieval: a store that raises gives no notes.\<close>

definition ask_retrieve :: "world \<Rightarrow> string \<Rightarrow> call list \<times> pydict list" where
  "ask_retrieve w q =
     (let filter_dict = ask_filter (keywords_of q)
      in ([GetDocuments ''memorynote'' filter_dict 20],
          case get_documents w ''memorynote'' filter_dict 20 of
            Inl e \<Rightarrow> []
          | Inr mems \<Rightarrow> mems))"

text \<open>
  \<open>"\n".join(context_snippets)\<close> raises \<open>TypeError\<close> when a snippet is not a \<open>str\<close>; the
  join is outside every \<open>try\<close> block.
\<close>

fun str_items :: "pyval list \<Rightarrow> string list option" where
  "str_items [] = Some []"
| "str_items (PStr s # vs) = map_option ((#) s) (str_items vs)"
| "str_items (v # vs) = None"

definition ask_context :: "pydict list \<Rightarrow> string raises" where
  "ask_context mems =
     (let context_snippets = map (\<lambda>m. dict_get m ''content'' (PStr '''')) mems
      in case str_items context_snippets of
           None \<Rightarrow> Inl ''TypeError''
         | Some snippets \<Rightarrow> Inr (take 2000 (py_join ''\<newline>'' snippets)))"

definition fallback_answer :: string where
  "fallback_answer =
     ''I couldn't find related notes yet. Try saving key facts first, or ask a more specific question.''"

definition ask_answer :: "string \<Rightarrow> string" where
  "ask_answer context =
     (if context \<noteq> []
      then ''Based on your saved notes, here's what seems relevant:\<newline>'' @ context
           @ ''\<newline>\<newline>In summary: ''
           @ (let sentences = re_split context
              in if length sentences > 2
                 then (let mid = length sentences div 2
                       in py_join '' '' [sentences ! 0, sentences ! mid, last sentences])
                 else context)
      else fallback_answer)"

definition ask_question :: "world \<Rightarrow> QuestionIn \<Rightarrow> response" where
  "ask_question w payload =
     (let q = py_strip (question payload)
      in if q = [] then ([], Inl (HTTPException 400 ''Question is required''))
         else (let (calls1, mems) = ask_retrieve w q
               in case ask_context mems of
                    Inl e \<Rightarrow> (calls1, Inl (Unhandled e))
                  | Inr context \<Rightarrow>
                      (let (calls2, answer') =
                             translate_best_effort w (q_target_lang payload) (ask_answer context)
                       in (calls1 @ calls2, json_response [(''answer'', answer')]))))"

subsection \<open>Concrete worlds\<close>

text \<open>
  \<open>offline_world\<close>: no outside service can be reached, every call raises.
  \<open>sample_world\<close>: the translation service answers with a translated text, the detection
  service with one guess, and the store holds two notes and one conversation turn.
  \<open>empty_store_world\<close>: as \<open>sample_world\<close>, with a store that holds nothing.
  \<open>nonfinite_world\<close>: the store cannot be reached, and both services answer with the
  JSON text they would send for a float that is not a number: the detection service with
  \<open>[{"language": "en", "confidence": NaN}]\<close>, the translation service with
  \<open>{"translatedText": NaN}\<close>.
\<close>

definition offline_world :: world where
  "offline_world =
     \<lparr>LIBRE_URL = ''https://libretranslate.de/detect'',
      TRANSLATE_URL = ''https://libretranslate.de/translate'',
      post = (\<lambda>url data. Inl ''Connection refused''),
      get_documents = (\<lambda>collection_name filter_dict limit. Inl ''Database not available''),
      py_str = (\<lambda>v. case v of ObjectId h \<Rightarrow> h | PStr s \<Rightarrow> s | _ \<Rightarrow> [])\<rparr>"

definition sample_notes :: "pydict list" where
  "sample_notes =
     [[(''_id'', ObjectId ''65f0c0ffee0000000000a001''),
       (''content'', PStr ''Mitochondria make ATP.''),
       (''tags'', PList [PStr ''bio''])],
      [(''content'', PStr ''Ribosomes build proteins.''),
       (''tags'', PList [])]]"

definition sample_world :: world where
  "sample_world =
     \<lparr>LIBRE_URL = ''https://libretranslate.de/detect'',
      TRANSLATE_URL = ''https://libretranslate.de/translate'',
      post = (\<lambda>url data.
                if url = ''https://libretranslate.de/detect''
                then Inr (Inr (PList [PDict [(''language'', PStr ''en''),
                                             (''confidence'', PInt 92)]]))
                else Inr (Inr (PDict [(''translatedText'', PStr ''hola'')]))),
      get_documents = (\<lambda>collection_name filter_dict limit.
                if collection_name = ''memorynote'' then Inr sample_notes
                else Inr [[(''_id'', ObjectId ''65f0c0ffee0000000000b001''),
                           (''session_id'', PStr ''s1''),
                           (''content'', PStr ''hello'')]]),
      py_str = (\<lambda>v. case v of ObjectId h \<Rightarrow> h | PStr s \<Rightarrow> s | _ \<Rightarrow> [])\<rparr>"

definition empty_store_world :: world where
  "empty_store_world =
     sample_world\<lparr>get_documents := (\<lambda>collection_name filter_dict limit. Inr [])\<rparr>"

definition nonfinite_world :: world where
  "nonfinite_world =
     \<lparr>LIBRE_URL = ''https://libretranslate.de/detect'',
      TRANSLATE_URL = ''https://libretranslate.de/translate'',
      post = (\<lambda>url data.
                if url = ''https://libretranslate.de/detect''
                then Inr (Inr (PList [PDict [(''language'', PStr ''en''),
                                             (''confidence'', PFloat NaN)]]))
                else Inr (Inr (PDict [(''translatedText'', PFloat NaN)]))),
      get_documents = (\<lambda>collection_name filter_dict limit. Inl ''Database not available''),
      py_str = (\<lambda>v. case v of ObjectId h \<Rightarrow> h | PStr s \<Rightarrow> s | _ \<Rightarrow> [])\<rparr>"

section \<open>Properties of the string builtins\<close>

lemma re_split_go_nonempty: "re_split_go p acc cs \<noteq> []"
  by (induction p acc cs rule: re_split_go.induct) auto

text \<open>Every piece but the last ends with the punctuation mark that closed it.\<close>

lemma re_split_go_punct:
  "(p \<longrightarrow> acc \<noteq> [] \<and> is_punct (hd acc)) \<Longrightarrow>
   s \<in> set (butlast (re_split_go p acc cs)) \<Longrightarrow> s \<noteq> [] \<and> is_punct (last s)"
proof (induction p acc cs rule: re_split_go.induct)
  case (1 p acc)
  then show ?case by simp
next
  case (2 p acc c cs)
  then show ?case
    by (auto simp: re_split_go_nonempty last_rev split: if_splits)
qed

lemma re_split_keeps_punct:
  assumes "i < length (re_split s) - 1"
  shows "re_split s ! i \<noteq> [] \<and> is_punct (last (re_split s ! i))"
proof -
  have "re_split s ! i = butlast (re_split s) ! i"
    using assms by (simp add: nth_butlast)
  moreover have "butlast (re_split s) ! i \<in> set (butlast (re_split s))"
    using assms by simp
  ultimately show ?thesis
    using re_split_go_punct [of False "[]" _ s] by (simp add: re_split_def)
qed

text \<open>The split drops whitespace only.\<close>

lemma re_split_go_only_space:
  "concat (map (filter (\<lambda>c. \<not> is_space c)) (re_split_go p acc cs))
     = filter (\<lambda>c. \<not> is_space c) (rev acc @ cs)"
proof (induction p acc cs rule: re_split_go.induct)
  case (1 p acc)
  show ?case by simp
next
  case (2 p acc c cs)
  have dw: "filter (\<lambda>c. \<not> is_space c) (dropWhile is_space cs) = filter (\<lambda>c. \<not> is_space c) cs"
    by (induction cs) auto
  show ?case using 2 by (simp add: dw)
qed

text \<open>A text without a punctuation mark followed by whitespace is a single piece.\<close>

lemma re_split_go_no_boundary:
  "(p \<longrightarrow> cs = [] \<or> \<not> is_space (hd cs)) \<Longrightarrow>
   (\<forall>i. Suc i < length cs \<longrightarrow> \<not> (is_punct (cs ! i) \<and> is_space (cs ! Suc i))) \<Longrightarrow>
   re_split_go p acc cs = [rev acc @ cs]"
proof (induction p acc cs rule: re_split_go.induct)
  case (1 p acc)
  show ?case by simp
next
  case (2 p acc c cs)
  have nsp: "\<not> (p \<and> is_space c)" using 2(3) by simp
  have a: "is_punct c \<longrightarrow> cs = [] \<or> \<not> is_space (hd cs)"
    using 2(4) [rule_format, of 0] by (cases cs) auto
  have b: "\<forall>i. Suc i < length cs \<longrightarrow> \<not> (is_punct (cs ! i) \<and> is_space (cs ! Suc i))"
    using 2(4) [rule_format, of "Suc _"] by auto
  show ?case using 2(2) [OF nsp a b] nsp by simp
qed

lemma re_split_Nil: "re_split [] = [[]]"
  by (simp add: re_split_def)

section \<open>The summarizer\<close>

lemma extractive_summary_long:
  assumes "3 < length (re_split t)"
  shows "extractive_summary t =
           re_split t ! 0 @ '' '' @ re_split t ! (length (re_split t) div 2) @ '' ''
             @ re_split t ! (length (re_split t) - 1)"
proof -
  have ne: "re_split t \<noteq> []" using assms by auto
  have "last (re_split t) = re_split t ! (length (re_split t) - 1)"
    using ne by (rule last_conv_nth)
  then show ?thesis using assms by (simp add: extractive_summary_def Let_def)
qed

lemma extractive_summary_short:
  "length (re_split t) \<le> 3 \<Longrightarrow> extractive_summary t = t"
  by (simp add: extractive_summary_def)

lemma summarize_nonempty:
  "py_strip (si_text payload) \<noteq> [] \<Longrightarrow>
   snd (summarize w payload) =
     Inr [(''summary'', snd (translate_best_effort w (si_target_lang payload)
                                (extractive_summary (py_strip (si_text payload)))))]"
  by (simp add: summarize_def Let_def split: prod.splits)

lemma translate_best_effort_off:
  "translate_best_effort w None s = ([], PStr s)"
  "translate_best_effort w (Some []) s = ([], PStr s)"
  by (simp_all add: translate_best_effort_def)

section \<open>Tokens, identifiers and the context string\<close>

text \<open>The tokens of \<open>split_ws\<close> are non-empty, free of whitespace, and lose whitespace only.\<close>

lemma split_ws_tokens:
  "\<forall>c \<in> set acc. \<not> is_space c \<Longrightarrow> t \<in> set (split_ws acc cs) \<Longrightarrow>
   t \<noteq> [] \<and> (\<forall>c \<in> set t. \<not> is_space c)"
proof (induction cs arbitrary: acc)
  case Nil
  then show ?case by (cases "acc = []") auto
next
  case (Cons c cs)
  show ?case
  proof (cases "is_space c")
    case True
    show ?thesis
    proof (cases "acc = []")
      case True
      with \<open>is_space c\<close> Cons.prems have "t \<in> set (split_ws [] cs)" by simp
      then show ?thesis using Cons.IH [of "[]"] by simp
    next
      case False
      with \<open>is_space c\<close> Cons.prems have "t = rev acc \<or> t \<in> set (split_ws [] cs)" by simp
      then show ?thesis
      proof
        assume "t = rev acc"
        then show ?thesis using False Cons.prems(1) by simp
      next
        assume "t \<in> set (split_ws [] cs)"
        then show ?thesis using Cons.IH [of "[]"] by simp
      qed
    qed
  next
    case False
    with Cons.prems have "t \<in> set (split_ws (c # acc) cs)" by simp
    moreover have "\<forall>x \<in> set (c # acc). \<not> is_space x" using False Cons.prems(1) by simp
    ultimately show ?thesis using Cons.IH [of "c # acc"] by blast
  qed
qed

lemma split_ws_concat:
  "concat (split_ws acc cs) = rev acc @ filter (\<lambda>c. \<not> is_space c) cs"
proof (induction cs arbitrary: acc)
  case Nil
  show ?case by simp
next
  case (Cons c cs)
  show ?case by (simp add: Cons.IH)
qed

text \<open>What \<open>convert_id\<close> does to the keys \<open>_id\<close> and \<open>id\<close>, and to every other key.\<close>

lemma convert_id_drops_native: "''_id'' \<notin> fst ` set (convert_id w d)"
proof (cases "map_of d ''_id''")
  case None
  have "convert_id w d = d" using None by (simp add: convert_id_def)
  moreover have "''_id'' \<notin> fst ` set d" using None by (simp add: map_of_eq_None_iff)
  ultimately show ?thesis by simp
next
  case (Some v)
  have "convert_id w d = AList.update ''id'' (PStr (py_str w v)) (AList.delete ''_id'' d)"
    using Some by (simp add: convert_id_def)
  then show ?thesis
    by (auto simp: dom_update AList.delete_eq)
qed

lemma convert_id_sets_id:
  "map_of d ''_id'' = Some v \<Longrightarrow> map_of (convert_id w d) ''id'' = Some (PStr (py_str w v))"
  by (simp add: convert_id_def update_conv')

lemma convert_id_keeps_rest:
  "k \<noteq> ''_id'' \<Longrightarrow> k \<noteq> ''id'' \<Longrightarrow> map_of (convert_id w d) k = map_of d k"
  by (simp add: convert_id_def update_conv' delete_conv' split: option.splits)

lemma convert_id_without_native:
  "map_of d ''_id'' = None \<Longrightarrow> convert_id w d = d"
  by (simp add: convert_id_def)

text \<open>\<open>str_items\<close> succeeds exactly on lists of strings.\<close>

lemma str_items_Some: "str_items vs = Some ss \<Longrightarrow> vs = map PStr ss"
proof (induction vs arbitrary: ss rule: str_items.induct)
  case 1
  then show ?case by simp
next
  case (2 s vs)
  then show ?case by (cases "str_items vs") auto
qed simp_all

lemma str_items_strs: "str_items (map PStr ss) = Some ss"
  by (induction ss) simp_all

section \<open>Rendering\<close>

lemma json_response_single:
  "json_response [(k, a)]
     = (if json_renderable a then Inr [(k, a)] else Inl (Unhandled ''ValueError''))"
  by (simp add: json_response_def)

lemma json_response_pair:
  "json_response [(k, a), (k', b)]
     = (if json_renderable a \<and> json_renderable b then Inr [(k, a), (k', b)]
        else Inl (Unhandled ''ValueError''))"
  by (simp add: json_response_def)

lemma json_response_default: "json_response detect_default = Inr detect_default"
  by (simp add: json_response_def detect_default_def)

section \<open>The question handler, step by step\<close>

lemma ask_retrieve_calls:
  "fst (ask_retrieve w q) = [GetDocuments ''memorynote'' (ask_filter (keywords_of q)) 20]"
  by (simp add: ask_retrieve_def Let_def)

lemma ask_retrieve_notes:
  "snd (ask_retrieve w q)
     = (case get_documents w ''memorynote'' (ask_filter (keywords_of q)) 20 of
          Inl e \<Rightarrow> [] | Inr mems \<Rightarrow> mems)"
  by (simp add: ask_retrieve_def Let_def)

lemma ask_question_answer:
  assumes "py_strip (question payload) \<noteq> []"
    and "ask_context (snd (ask_retrieve w (py_strip (question payload)))) = Inr c"
  shows "ask_question w payload
           = (GetDocuments ''memorynote'' (ask_filter (keywords_of (py_strip (question payload)))) 20
                # fst (translate_best_effort w (q_target_lang payload) (ask_answer c)),
              json_response [(''answer'',
                    snd (translate_best_effort w (q_target_lang payload) (ask_answer c)))])"
proof -
  obtain calls1 mems where r: "ask_retrieve w (py_strip (question payload)) = (calls1, mems)"
    by (cases "ask_retrieve w (py_strip (question payload))")
  have c1: "calls1 = [GetDocuments ''memorynote''
                        (ask_filter (keywords_of (py_strip (question payload)))) 20]"
    using ask_retrieve_calls [of w "py_strip (question payload)"] r by simp
  have ctx: "ask_context mems = Inr c" using assms(2) r by simp
  obtain calls2 a where t:
    "translate_best_effort w (q_target_lang payload) (ask_answer c) = (calls2, a)"
    by (cases "translate_best_effort w (q_target_lang payload) (ask_answer c)")
  show ?thesis
    using assms(1) by (simp add: ask_question_def Let_def r ctx t c1)
qed

lemma ask_context_Inr:
  assumes "ask_context mems = Inr c"
  shows "c = take 2000 (py_join ''\<newline>''
              (map (\<lambda>m. case dict_get m ''content'' (PStr '''') of PStr s \<Rightarrow> s | _ \<Rightarrow> []) mems))"
proof -
  let ?f = "\<lambda>m. dict_get m ''content'' (PStr '''')"
  let ?g = "\<lambda>v. case v of PStr s \<Rightarrow> s | _ \<Rightarrow> []"
  obtain ss where ss: "str_items (map ?f mems) = Some ss"
    and c: "c = take 2000 (py_join ''\<newline>'' ss)"
    using assms by (cases "str_items (map ?f mems)") (auto simp: ask_context_def Let_def)
  have "map ?f mems = map PStr ss" using ss by (rule str_items_Some)
  then have "map ?g (map ?f mems) = map ?g (map PStr ss)" by simp
  then have "map (\<lambda>m. ?g (?f m)) mems = ss" by (simp add: comp_def)
  then show ?thesis using c by simp
qed

lemma ask_context_strings:
  assumes "\<forall>m \<in> set mems. \<exists>s. dict_get m ''content'' (PStr '''') = PStr s"
  shows "\<exists>c. ask_context mems = Inr c"
proof -
  let ?f = "\<lambda>m. dict_get m ''content'' (PStr '''')"
  let ?g = "\<lambda>v. case v of PStr s \<Rightarrow> s | _ \<Rightarrow> []"
  have eq: "map ?f mems = map PStr (map (\<lambda>m. ?g (?f m)) mems)"
    using assms by (induction mems) auto
  have "str_items (map ?f mems) = Some (map (\<lambda>m. ?g (?f m)) mems)"
    by (subst eq) (rule str_items_strs)
  then show ?thesis by (simp add: ask_context_def Let_def)
qed

section \<open>Claims\<close>

text \<open>
  C1. When the stripped text splits into \<open>n > 3\<close> sentences, the summary of
  \<open>POST /api/summarize\<close> before translation is
  \<open>sentence[0] + " " + sentence[n div 2] + " " + sentence[n - 1]\<close>: this is the value of
  \<open>extractive_summary\<close>, the whole response when no target language is given, and the
  text handed to the best-effort translation otherwise. Every sentence but the last keeps
  its closing \<open>.\<close>, \<open>!\<close> or \<open>?\<close>. The four-sentence example of the specification splits as
  it says and is summarised to \<open>"A cat sat. Then it woke. Finally it ran away."\<close>.
\<close>

theorem summarize_first_middle_last:
  "(\<forall>text sentences n.
      sentences = re_split (py_strip text) \<longrightarrow> n = length sentences \<longrightarrow> 3 < n \<longrightarrow>
        extractive_summary (py_strip text)
          = sentences ! 0 @ '' '' @ sentences ! (n div 2) @ '' '' @ sentences ! (n - 1)
        \<and> summarize w \<lparr>si_text = text, si_target_lang = None\<rparr>
          = ([], Inr [(''summary'',
                PStr (sentences ! 0 @ '' '' @ sentences ! (n div 2) @ '' '' @ sentences ! (n - 1)))])
        \<and> (\<forall>tl. snd (summarize w \<lparr>si_text = text, si_target_lang = tl\<rparr>)
          = Inr [(''summary'', snd (translate_best_effort w tl
                (sentences ! 0 @ '' '' @ sentences ! (n div 2) @ '' '' @ sentences ! (n - 1))))])
        \<and> (\<forall>i < n - 1. sentences ! i \<noteq> [] \<and> is_punct (last (sentences ! i))))
   \<and> re_split (py_strip ''A cat sat. It slept. Then it woke. Finally it ran away.'')
       = [''A cat sat.'', ''It slept.'', ''Then it woke.'', ''Finally it ran away.'']
   \<and> summarize w \<lparr>si_text = ''A cat sat. It slept. Then it woke. Finally it ran away.'',
                   si_target_lang = None\<rparr>
       = ([], Inr [(''summary'', PStr ''A cat sat. Then it woke. Finally it ran away.'')])"
proof -
  have gen: "extractive_summary (py_strip t)
          = re_split (py_strip t) ! 0 @ '' ''
            @ re_split (py_strip t) ! (length (re_split (py_strip t)) div 2) @ '' ''
            @ re_split (py_strip t) ! (length (re_split (py_strip t)) - 1)
        \<and> summarize w \<lparr>si_text = t, si_target_lang = None\<rparr>
          = ([], Inr [(''summary'',
                PStr (re_split (py_strip t) ! 0 @ '' ''
            @ re_split (py_strip t) ! (length (re_split (py_strip t)) div 2) @ '' ''
            @ re_split (py_strip t) ! (length (re_split (py_strip t)) - 1)))])
        \<and> (\<forall>tl. snd (summarize w \<lparr>si_text = t, si_target_lang = tl\<rparr>)
          = Inr [(''summary'', snd (translate_best_effort w tl
                (re_split (py_strip t) ! 0 @ '' ''
            @ re_split (py_strip t) ! (length (re_split (py_strip t)) div 2) @ '' ''
            @ re_split (py_strip t) ! (length (re_split (py_strip t)) - 1))))])
        \<and> (\<forall>i < length (re_split (py_strip t)) - 1.
              re_split (py_strip t) ! i \<noteq> [] \<and> is_punct (last (re_split (py_strip t) ! i)))"
    if long: "3 < length (re_split (py_strip t))" for t
  proof -
    have ne: "py_strip t \<noteq> []"
      using long by (auto simp: re_split_Nil)
    note s = extractive_summary_long [OF long]
    have a: "summarize w \<lparr>si_text = t, si_target_lang = None\<rparr>
               = ([], Inr [(''summary'', PStr (extractive_summary (py_strip t)))])"
      using ne by (simp add: summarize_def translate_best_effort_off)
    have b: "snd (summarize w \<lparr>si_text = t, si_target_lang = tl\<rparr>)
               = Inr [(''summary'', snd (translate_best_effort w tl
                    (extractive_summary (py_strip t))))]" for tl
      using ne summarize_nonempty [of "\<lparr>si_text = t, si_target_lang = tl\<rparr>" w] by simp
    show ?thesis
      using s a b re_split_keeps_punct [of _ "py_strip t"] by simp
  qed
  have strip: "py_strip ''A cat sat. It slept. Then it woke. Finally it ran away.''
                 = ''A cat sat. It slept. Then it woke. Finally it ran away.''"
    by (simp add: py_strip_def is_space_def)
  have split: "re_split ''A cat sat. It slept. Then it woke. Finally it ran away.''
       = [''A cat sat.'', ''It slept.'', ''Then it woke.'', ''Finally it ran away.'']"
    by (simp add: re_split_def is_space_def is_punct_def)
  have ex: "summarize w \<lparr>si_text = ''A cat sat. It slept. Then it woke. Finally it ran away.'',
                   si_target_lang = None\<rparr>
       = ([], Inr [(''summary'', PStr ''A cat sat. Then it woke. Finally it ran away.'')])"
    by (simp add: summarize_def strip translate_best_effort_off extractive_summary_def split)
  show ?thesis
    using gen strip split ex by (intro conjI allI impI) simp_all
qed

text \<open>The same on a text of five sentences with surrounding whitespace.\<close>

theorem summarize_first_middle_last_witness:
  "length (re_split (py_strip ''  One. Two! Three? Four. Five.  '')) = 5
   \<and> summarize offline_world \<lparr>si_text = ''  One. Two! Three? Four. Five.  '', si_target_lang = None\<rparr>
       = ([], Inr [(''summary'', PStr ''One. Three? Five.'')])"
proof -
  have strip: "py_strip ''  One. Two! Three? Four. Five.  '' = ''One. Two! Three? Four. Five.''"
    by (simp add: py_strip_def is_space_def)
  have split: "re_split ''One. Two! Three? Four. Five.''
                 = [''One.'', ''Two!'', ''Three?'', ''Four.'', ''Five.'']"
    by (simp add: re_split_def is_space_def is_punct_def)
  show ?thesis
    using summarize_first_middle_last [of offline_world, THEN conjunct1, rule_format,
        of "re_split (py_strip ''  One. Two! Three? Four. Five.  '')"
           "''  One. Two! Three? Four. Five.  ''" 5]
    by (simp add: strip split)
qed

text \<open>
  C2. When the stripped text splits into at most three sentences, the summary before
  translation is the stripped text itself: this is the value of \<open>extractive_summary\<close>,
  and for a text that is not empty after stripping it is the whole response when no
  target language is given and the text handed to the best-effort translation otherwise.
  A text in which no \<open>.\<close>, \<open>!\<close> or \<open>?\<close> is followed by whitespace is one sentence and
  so is returned unchanged.
\<close>

theorem summarize_short_unchanged:
  "(length (re_split (py_strip t)) \<le> 3 \<longrightarrow>
      extractive_summary (py_strip t) = py_strip t
      \<and> (py_strip t \<noteq> [] \<longrightarrow>
           summarize w \<lparr>si_text = t, si_target_lang = None\<rparr>
             = ([], Inr [(''summary'', PStr (py_strip t))])
           \<and> (\<forall>tl. snd (summarize w \<lparr>si_text = t, si_target_lang = tl\<rparr>)
                = Inr [(''summary'', snd (translate_best_effort w tl (py_strip t)))])))
   \<and> ((\<forall>i. Suc i < length (py_strip t) \<longrightarrow>
            \<not> (is_punct (py_strip t ! i) \<and> is_space (py_strip t ! Suc i))) \<longrightarrow>
        re_split (py_strip t) = [py_strip t] \<and> extractive_summary (py_strip t) = py_strip t)"
proof -
  have a: "summarize w \<lparr>si_text = t, si_target_lang = None\<rparr>
             = ([], Inr [(''summary'', PStr (extractive_summary (py_strip t)))])"
    if "py_strip t \<noteq> []"
    using that by (simp add: summarize_def translate_best_effort_off)
  have b: "snd (summarize w \<lparr>si_text = t, si_target_lang = tl\<rparr>)
             = Inr [(''summary'', snd (translate_best_effort w tl
                  (extractive_summary (py_strip t))))]"
    if "py_strip t \<noteq> []" for tl
    using that summarize_nonempty [of "\<lparr>si_text = t, si_target_lang = tl\<rparr>" w] by simp
  have c: "re_split (py_strip t) = [py_strip t]"
    if "\<forall>i. Suc i < length (py_strip t) \<longrightarrow>
            \<not> (is_punct (py_strip t ! i) \<and> is_space (py_strip t ! Suc i))"
    using re_split_go_no_boundary [of False "py_strip t" "[]"] that
    by (simp add: re_split_def)
  show ?thesis
    using a b c extractive_summary_short [of "py_strip t"]
    by (auto simp del: One_nat_def)
qed

theorem summarize_short_unchanged_witness:
  "length (re_split (py_strip ''  First one. Second one!  '')) = 2
   \<and> summarize sample_world \<lparr>si_text = ''  First one. Second one!  '', si_target_lang = None\<rparr>
       = ([], Inr [(''summary'', PStr ''First one. Second one!'')])
   \<and> re_split (py_strip '' a.b '') = [''a.b'']"
proof -
  have strip: "py_strip ''  First one. Second one!  '' = ''First one. Second one!''"
    by (simp add: py_strip_def is_space_def)
  have split: "re_split ''First one. Second one!'' = [''First one.'', ''Second one!'']"
    by (simp add: re_split_def is_space_def is_punct_def)
  have strip2: "py_strip '' a.b '' = ''a.b''"
    by (simp add: py_strip_def is_space_def)
  have nb: "\<forall>i. Suc i < length (py_strip '' a.b '') \<longrightarrow>
            \<not> (is_punct (py_strip '' a.b '' ! i) \<and> is_space (py_strip '' a.b '' ! Suc i))"
    by (auto simp: strip2 less_Suc_eq is_space_def numeral_3_eq_3)
  have len: "length (re_split (py_strip ''  First one. Second one!  '')) \<le> 3"
    by (simp add: strip split)
  have ne: "py_strip ''  First one. Second one!  '' \<noteq> []"
    by (simp add: strip)
  note first = summarize_short_unchanged [of "''  First one. Second one!  ''" sample_world,
      THEN conjunct1, THEN mp, OF len, THEN conjunct2, THEN mp, OF ne, THEN conjunct1]
  note second = summarize_short_unchanged [of "'' a.b ''" sample_world,
      THEN conjunct2, THEN mp, OF nb, THEN conjunct1]
  show ?thesis
    using first second by (simp add: strip split strip2)
qed

text \<open>
  C3. When every call of the translation service fails (the request raises, or its body
  cannot be parsed), \<open>POST /api/translate\<close> ends in an \<open>HTTPException\<close> with status 500 and
  a detail string, while \<open>POST /api/summarize\<close> on a text that is not empty after stripping
  answers 200 with the untranslated summary, whatever target language is set.
\<close>

theorem translate_fails_summarize_degrades:
  "(\<forall>data. (\<exists>e. post w (TRANSLATE_URL w) data = Inl e)
            \<or> (\<exists>e. post w (TRANSLATE_URL w) data = Inr (Inl e))) \<longrightarrow>
     (\<exists>detail. snd (translate_text w payload) = Inl (HTTPException 500 detail))
     \<and> (py_strip (si_text spayload) \<noteq> [] \<longrightarrow>
          snd (summarize w spayload)
            = Inr [(''summary'', PStr (extractive_summary (py_strip (si_text spayload))))])"
proof (intro impI conjI)
  assume fail: "\<forall>data. (\<exists>e. post w (TRANSLATE_URL w) data = Inl e)
                      \<or> (\<exists>e. post w (TRANSLATE_URL w) data = Inr (Inl e))"
  show "\<exists>detail. snd (translate_text w payload) = Inl (HTTPException 500 detail)"
    using fail [rule_format, of "[(''q'', ti_text payload), (''source'', ''auto''),
                     (''target'', or_default (ti_target_lang payload) ''en'')]"]
    by (auto simp: translate_text_def Let_def)
  have keep: "snd (translate_best_effort w tl s) = PStr s" for tl s
  proof (cases tl)
    case None
    then show ?thesis by (simp add: translate_best_effort_def)
  next
    case (Some t)
    show ?thesis
      using fail [rule_format, of "[(''q'', s), (''source'', ''auto''), (''target'', t)]"] Some
      by (auto simp: translate_best_effort_def Let_def)
  qed
  assume "py_strip (si_text spayload) \<noteq> []"
  then show "snd (summarize w spayload)
            = Inr [(''summary'', PStr (extractive_summary (py_strip (si_text spayload))))]"
    by (simp add: summarize_nonempty keep)
qed

theorem translate_fails_summarize_degrades_witness:
  "snd (translate_text offline_world \<lparr>ti_text = ''Good morning.'', ti_target_lang = Some ''es''\<rparr>)
     = Inl (HTTPException 500 ''Connection refused'')
   \<and> snd (summarize offline_world \<lparr>si_text = ''Good morning.'', si_target_lang = Some ''es''\<rparr>)
     = Inr [(''summary'', PStr ''Good morning.'')]"
proof -
  have fail: "\<forall>data. (\<exists>e. post offline_world (TRANSLATE_URL offline_world) data = Inl e)
            \<or> (\<exists>e. post offline_world (TRANSLATE_URL offline_world) data = Inr (Inl e))"
    by (simp add: offline_world_def)
  have strip: "py_strip ''Good morning.'' = ''Good morning.''"
    by (simp add: py_strip_def is_space_def)
  have split: "re_split ''Good morning.'' = [''Good morning.'']"
    by (simp add: re_split_def is_space_def is_punct_def)
  have "snd (summarize offline_world \<lparr>si_text = ''Good morning.'', si_target_lang = Some ''es''\<rparr>)
     = Inr [(''summary'', PStr ''Good morning.'')]"
    using translate_fails_summarize_degrades [of offline_world _
        "\<lparr>si_text = ''Good morning.'', si_target_lang = Some ''es''\<rparr>", THEN mp, OF fail,
        THEN conjunct2]
    by (simp add: strip extractive_summary_def split)
  moreover have "snd (translate_text offline_world
        \<lparr>ti_text = ''Good morning.'', ti_target_lang = Some ''es''\<rparr>)
     = Inl (HTTPException 500 ''Connection refused'')"
    by (simp add: translate_text_def offline_world_def)
  ultimately show ?thesis by simp
qed

text \<open>
  C9. When the translation service answers \<open>POST /api/translate\<close> without raising and the
  parsed body is not a dict with the key \<open>translatedText\<close>, the handler answers 200 with
  the input text unchanged as \<open>translated\<close> and the target language (\<open>"en"\<close> when none
  is given) as \<open>target\<close>.
\<close>

theorem translate_unexpected_body_echoes:
  "post w (TRANSLATE_URL w)
       [(''q'', ti_text payload), (''source'', ''auto''),
        (''target'', or_default (ti_target_lang payload) ''en'')] = Inr (Inr body)
   \<longrightarrow> (\<forall>d. body = PDict d \<longrightarrow> ''translatedText'' \<notin> fst ` set d)
   \<longrightarrow> snd (translate_text w payload)
         = Inr [(''translated'', PStr (ti_text payload)),
                (''target'', PStr (or_default (ti_target_lang payload) ''en''))]"
  by (force simp: translate_text_def Let_def dest!: map_of_SomeD
           split: sum.splits pyval.splits option.splits)

theorem translate_unexpected_body_echoes_witness:
  "snd (translate_text
          (offline_world\<lparr>post := (\<lambda>url data. Inr (Inr (PDict [(''error'', PStr ''Slowdown'')])))\<rparr>)
          \<lparr>ti_text = ''Guten Tag'', ti_target_lang = None\<rparr>)
     = Inr [(''translated'', PStr ''Guten Tag''), (''target'', PStr ''en'')]
   \<and> snd (translate_text
          (offline_world\<lparr>post := (\<lambda>url data. Inr (Inr (PList [])))\<rparr>)
          \<lparr>ti_text = ''Guten Tag'', ti_target_lang = Some ''fr''\<rparr>)
     = Inr [(''translated'', PStr ''Guten Tag''), (''target'', PStr ''fr'')]"
  using translate_unexpected_body_echoes
      [of "offline_world\<lparr>post := (\<lambda>url data. Inr (Inr (PDict [(''error'', PStr ''Slowdown'')])))\<rparr>"
          "\<lparr>ti_text = ''Guten Tag'', ti_target_lang = None\<rparr>"
          "PDict [(''error'', PStr ''Slowdown'')]"]
    translate_unexpected_body_echoes
      [of "offline_world\<lparr>post := (\<lambda>url data. Inr (Inr (PList [])))\<rparr>"
          "\<lparr>ti_text = ''Guten Tag'', ti_target_lang = Some ''fr''\<rparr>"
          "PList []"]
  by simp

text \<open>
  C10. In \<open>GET /api/memory\<close> and \<open>GET /api/conversation\<close> an empty-string \<open>tag\<close> or
  \<open>session_id\<close> behaves as an absent one: the handler queries the store with the empty
  filter, and its whole response is that of the call without the parameter.
\<close>

theorem empty_query_parameter_unfiltered:
  "list_memory w (Some []) limit = list_memory w None limit
   \<and> fst (list_memory w (Some []) limit) = [GetDocuments ''memorynote'' (PDict []) limit]
   \<and> snd (list_memory w (Some []) limit)
       = (case get_documents w ''memorynote'' (PDict []) limit of
            Inl e \<Rightarrow> Inl (HTTPException 500 e)
          | Inr docs \<Rightarrow> Inr [(''items'', PList (map (PDict \<circ> convert_id w) docs))])
   \<and> get_conversation w (Some []) limit = get_conversation w None limit
   \<and> fst (get_conversation w (Some []) limit)
       = [GetDocuments ''conversationturn'' (PDict []) limit]
   \<and> snd (get_conversation w (Some []) limit)
       = (case get_documents w ''conversationturn'' (PDict []) limit of
            Inl e \<Rightarrow> Inl (HTTPException 500 e)
          | Inr docs \<Rightarrow> Inr [(''items'', PList (map (PDict \<circ> convert_id w) docs))])"
  by (simp add: list_memory_def get_conversation_def memory_filter_def conversation_filter_def
      Let_def)

theorem empty_query_parameter_unfiltered_witness:
  "fst (list_memory sample_world (Some []) 50) = [GetDocuments ''memorynote'' (PDict []) 50]
   \<and> get_conversation sample_world (Some []) 100 = get_conversation sample_world None 100"
proof -
  note m = empty_query_parameter_unfiltered [of sample_world 50,
      THEN conjunct2, THEN conjunct1]
  note c = empty_query_parameter_unfiltered [of sample_world 100,
      THEN conjunct2, THEN conjunct2, THEN conjunct2, THEN conjunct1]
  show ?thesis using m c by (rule conjI)
qed

text \<open>
  C6. Every record returned by \<open>GET /api/memory\<close> and \<open>GET /api/conversation\<close> is the
  stored record after \<open>convert_id\<close>: it has no key \<open>_id\<close>, and when the stored record
  had \<open>_id\<close> with value \<open>v\<close>, it has \<open>id\<close> with the string \<open>str(v)\<close>. A stored record
  without \<open>_id\<close> is returned as it is.
\<close>

theorem listed_records_have_string_id:
  "(\<forall>body. snd (list_memory w tag limit) = Inr body \<longrightarrow>
      (\<exists>docs. get_documents w ''memorynote'' (memory_filter tag) limit = Inr docs
         \<and> body = [(''items'', PList (map (PDict \<circ> convert_id w) docs))]
         \<and> (\<forall>d \<in> set docs.
               ''_id'' \<notin> fst ` set (convert_id w d)
               \<and> (\<forall>v. map_of d ''_id'' = Some v \<longrightarrow>
                      map_of (convert_id w d) ''id'' = Some (PStr (py_str w v)))
               \<and> (map_of d ''_id'' = None \<longrightarrow> convert_id w d = d))))
   \<and> (\<forall>body. snd (get_conversation w session_id limit') = Inr body \<longrightarrow>
      (\<exists>docs. get_documents w ''conversationturn'' (conversation_filter session_id) limit' = Inr docs
         \<and> body = [(''items'', PList (map (PDict \<circ> convert_id w) docs))]
         \<and> (\<forall>d \<in> set docs.
               ''_id'' \<notin> fst ` set (convert_id w d)
               \<and> (\<forall>v. map_of d ''_id'' = Some v \<longrightarrow>
                      map_of (convert_id w d) ''id'' = Some (PStr (py_str w v)))
               \<and> (map_of d ''_id'' = None \<longrightarrow> convert_id w d = d))))"
proof -
  have rec: "''_id'' \<notin> fst ` set (convert_id w d)
               \<and> (\<forall>v. map_of d ''_id'' = Some v \<longrightarrow>
                      map_of (convert_id w d) ''id'' = Some (PStr (py_str w v)))
               \<and> (map_of d ''_id'' = None \<longrightarrow> convert_id w d = d)" for d
    using convert_id_drops_native [of w d] convert_id_sets_id [of d _ w]
      convert_id_without_native [of d w]
    by blast
  have m: "\<exists>docs. get_documents w ''memorynote'' (memory_filter tag) limit = Inr docs
         \<and> body = [(''items'', PList (map (PDict \<circ> convert_id w) docs))]"
    if "snd (list_memory w tag limit) = Inr body" for body
    using that by (cases "get_documents w ''memorynote'' (memory_filter tag) limit")
      (auto simp: list_memory_def Let_def)
  have c: "\<exists>docs. get_documents w ''conversationturn'' (conversation_filter session_id) limit'
                   = Inr docs
         \<and> body = [(''items'', PList (map (PDict \<circ> convert_id w) docs))]"
    if "snd (get_conversation w session_id limit') = Inr body" for body
    using that
    by (cases "get_documents w ''conversationturn'' (conversation_filter session_id) limit'")
      (auto simp: get_conversation_def Let_def)
  show ?thesis
    using rec m c by blast
qed

theorem listed_records_have_string_id_witness:
  "snd (list_memory sample_world None 50)
     = Inr [(''items'', PList
         [PDict [(''content'', PStr ''Mitochondria make ATP.''),
                 (''tags'', PList [PStr ''bio'']),
                 (''id'', PStr ''65f0c0ffee0000000000a001'')],
          PDict [(''content'', PStr ''Ribosomes build proteins.''),
                 (''tags'', PList [])]])]
   \<and> ''_id'' \<notin> fst ` set (convert_id sample_world (hd sample_notes))
   \<and> map_of (convert_id sample_world (hd sample_notes)) ''id''
       = Some (PStr ''65f0c0ffee0000000000a001'')"
proof -
  have run: "snd (list_memory sample_world None 50)
     = Inr [(''items'', PList
         [PDict [(''content'', PStr ''Mitochondria make ATP.''),
                 (''tags'', PList [PStr ''bio'']),
                 (''id'', PStr ''65f0c0ffee0000000000a001'')],
          PDict [(''content'', PStr ''Ribosomes build proteins.''),
                 (''tags'', PList [])]])]"
    by (simp add: list_memory_def memory_filter_def sample_world_def sample_notes_def
        convert_id_def)
  have store: "get_documents sample_world ''memorynote'' (memory_filter None) 50 = Inr sample_notes"
    by (simp add: sample_world_def)
  have mem: "hd sample_notes \<in> set sample_notes"
    by (simp add: sample_notes_def)
  have native: "map_of (hd sample_notes) ''_id'' = Some (ObjectId ''65f0c0ffee0000000000a001'')"
    by (simp add: sample_notes_def)
  have str: "py_str sample_world (ObjectId ''65f0c0ffee0000000000a001'')
               = ''65f0c0ffee0000000000a001''"
    by (simp add: sample_world_def)
  from listed_records_have_string_id [of sample_world None 50 None 100, THEN conjunct1,
      rule_format, OF run]
  obtain docs where d: "get_documents sample_world ''memorynote'' (memory_filter None) 50 = Inr docs"
    and all: "\<forall>d \<in> set docs.
               ''_id'' \<notin> fst ` set (convert_id sample_world d)
               \<and> (\<forall>v. map_of d ''_id'' = Some v \<longrightarrow>
                      map_of (convert_id sample_world d) ''id'' = Some (PStr (py_str sample_world v)))
               \<and> (map_of d ''_id'' = None \<longrightarrow> convert_id sample_world d = d)"
    by blast
  from d store have "docs = sample_notes" by simp
  with all mem native str
  have "''_id'' \<notin> fst ` set (convert_id sample_world (hd sample_notes))
   \<and> map_of (convert_id sample_world (hd sample_notes)) ''id''
       = Some (PStr ''65f0c0ffee0000000000a001'')"
    by auto
  with run show ?thesis by simp
qed

text \<open>
  C8. \<open>POST /api/detect\<close> makes one call of the detection service and never raises an
  \<open>HTTPException\<close>. When that call raises, its body cannot be parsed, the body is the
  empty list, is not a list, or starts with something that is not a dict, the answer is
  200 with \<open>{language: "auto", confidence: 0}\<close>. When the body is a list that starts with
  a dict, the answer is 200 with the fields \<open>language\<close> and \<open>confidence\<close> of that dict
  (\<open>"auto"\<close> and \<open>0\<close> for a missing one) if both values can be rendered as JSON, and the
  request ends with status 500 if one of them cannot. The latter happens: a reply with
  the confidence \<open>NaN\<close> is not answered with 200.
\<close>

theorem detect_ok_when_renderable:
  "fst (detect_language w payload) = [Post (LIBRE_URL w) [(''q'', ti_text payload)]]
   \<and> ((\<exists>e. post w (LIBRE_URL w) [(''q'', ti_text payload)] = Inl e)
        \<or> (\<exists>e. post w (LIBRE_URL w) [(''q'', ti_text payload)] = Inr (Inl e))
        \<or> post w (LIBRE_URL w) [(''q'', ti_text payload)] = Inr (Inr (PList []))
        \<or> (\<exists>v. post w (LIBRE_URL w) [(''q'', ti_text payload)] = Inr (Inr v)
               \<and> (\<forall>vs. v \<noteq> PList vs))
        \<or> (\<exists>v vs. post w (LIBRE_URL w) [(''q'', ti_text payload)] = Inr (Inr (PList (v # vs)))
               \<and> (\<forall>d. v \<noteq> PDict d))
       \<longrightarrow> snd (detect_language w payload)
             = Inr [(''language'', PStr ''auto''), (''confidence'', PInt 0)])
   \<and> (\<forall>d0 rest.
         post w (LIBRE_URL w) [(''q'', ti_text payload)] = Inr (Inr (PList (PDict d0 # rest))) \<longrightarrow>
           snd (detect_language w payload)
             = (if json_renderable (dict_get d0 ''language'' (PStr ''auto''))
                   \<and> json_renderable (dict_get d0 ''confidence'' (PInt 0))
                then Inr [(''language'', dict_get d0 ''language'' (PStr ''auto'')),
                          (''confidence'', dict_get d0 ''confidence'' (PInt 0))]
                else Inl (Unhandled ''ValueError'')))
   \<and> (\<forall>status detail. snd (detect_language w payload) \<noteq> Inl (HTTPException status detail))"
proof (intro conjI allI impI)
  show "fst (detect_language w payload) = [Post (LIBRE_URL w) [(''q'', ti_text payload)]]"
    by (simp add: detect_language_def Let_def)
next
  assume "(\<exists>e. post w (LIBRE_URL w) [(''q'', ti_text payload)] = Inl e)
        \<or> (\<exists>e. post w (LIBRE_URL w) [(''q'', ti_text payload)] = Inr (Inl e))
        \<or> post w (LIBRE_URL w) [(''q'', ti_text payload)] = Inr (Inr (PList []))
        \<or> (\<exists>v. post w (LIBRE_URL w) [(''q'', ti_text payload)] = Inr (Inr v)
               \<and> (\<forall>vs. v \<noteq> PList vs))
        \<or> (\<exists>v vs. post w (LIBRE_URL w) [(''q'', ti_text payload)] = Inr (Inr (PList (v # vs)))
               \<and> (\<forall>d. v \<noteq> PDict d))"
  then have "snd (detect_language w payload) = json_response detect_default"
    by (auto simp: detect_language_def Let_def split: sum.splits pyval.splits list.splits)
  then show "snd (detect_language w payload)
             = Inr [(''language'', PStr ''auto''), (''confidence'', PInt 0)]"
    by (simp add: json_response_default) (simp add: detect_default_def)
next
  fix d0 rest
  assume "post w (LIBRE_URL w) [(''q'', ti_text payload)] = Inr (Inr (PList (PDict d0 # rest)))"
  then show "snd (detect_language w payload)
             = (if json_renderable (dict_get d0 ''language'' (PStr ''auto''))
                   \<and> json_renderable (dict_get d0 ''confidence'' (PInt 0))
                then Inr [(''language'', dict_get d0 ''language'' (PStr ''auto'')),
                          (''confidence'', dict_get d0 ''confidence'' (PInt 0))]
                else Inl (Unhandled ''ValueError''))"
    by (simp add: detect_language_def Let_def json_response_pair)
next
  fix status detail
  show "snd (detect_language w payload) \<noteq> Inl (HTTPException status detail)"
    by (simp add: detect_language_def Let_def json_response_def)
qed

theorem detect_ok_when_renderable_witness:
  "detect_language offline_world \<lparr>ti_text = ''bonjour'', ti_target_lang = None\<rparr>
     = ([Post ''https://libretranslate.de/detect'' [(''q'', ''bonjour'')]],
        Inr [(''language'', PStr ''auto''), (''confidence'', PInt 0)])
   \<and> snd (detect_language sample_world \<lparr>ti_text = ''good morning'', ti_target_lang = None\<rparr>)
     = Inr [(''language'', PStr ''en''), (''confidence'', PInt 92)]"
proof -
  let ?p = "\<lparr>ti_text = ''bonjour'', ti_target_lang = None\<rparr>"
  let ?q = "\<lparr>ti_text = ''good morning'', ti_target_lang = None\<rparr>"
  have down: "\<exists>e. post offline_world (LIBRE_URL offline_world) [(''q'', ti_text ?p)] = Inl e"
    by (simp add: offline_world_def)
  have up: "post sample_world (LIBRE_URL sample_world) [(''q'', ti_text ?q)]
              = Inr (Inr (PList [PDict [(''language'', PStr ''en''), (''confidence'', PInt 92)]]))"
    by (simp add: sample_world_def)
  note calls = detect_ok_when_renderable [of offline_world ?p, THEN conjunct1]
  note dflt = detect_ok_when_renderable [of offline_world ?p, THEN conjunct2, THEN conjunct1,
      THEN mp, OF disjI1, OF down]
  note guess = detect_ok_when_renderable [of sample_world ?q, THEN conjunct2, THEN conjunct2,
      THEN conjunct1, THEN spec, THEN spec, THEN mp, OF up]
  have a: "detect_language offline_world ?p
     = ([Post ''https://libretranslate.de/detect'' [(''q'', ''bonjour'')]],
        Inr [(''language'', PStr ''auto''), (''confidence'', PInt 0)])"
    using calls dflt by (simp add: prod_eq_iff offline_world_def)
  have b: "snd (detect_language sample_world ?q)
     = Inr [(''language'', PStr ''en''), (''confidence'', PInt 92)]"
    using guess by (simp add: dict_get_def)
  show ?thesis using a b by (rule conjI)
qed

text \<open>
  The detection service answers \<open>[{"language": "en", "confidence": NaN}]\<close>: the call does
  not fail, and the request ends with status 500.
\<close>

theorem detect_nonfinite_confidence_fails:
  "post nonfinite_world (LIBRE_URL nonfinite_world) [(''q'', ''hello'')]
     = Inr (Inr (PList [PDict [(''language'', PStr ''en''), (''confidence'', PFloat NaN)]]))
   \<and> snd (detect_language nonfinite_world \<lparr>ti_text = ''hello'', ti_target_lang = None\<rparr>)
     = Inl (Unhandled ''ValueError'')"
  by (simp add: detect_language_def nonfinite_world_def dict_get_def json_response_def)

text \<open>
  C4. In \<open>POST /api/ask\<close> the keywords are the tokens of \<open>q.split()\<close> that are longer than
  three characters, lowercased, in their order. The tokens are non-empty, hold no
  whitespace, and together are the question without its whitespace. With no keyword the
  retrieval is still made: one call of the store on \<open>memorynote\<close> with the empty filter
  and limit 20, whose records are the notes; this is the first call of the handler, and
  the answer is built from the records it returns.
\<close>

theorem ask_keywords_and_unfiltered_query:
  "keywords_of q = map py_lower (filter (\<lambda>t. 3 < length t) (py_split q))
   \<and> (\<forall>t \<in> set (py_split q). t \<noteq> [] \<and> (\<forall>c \<in> set t. \<not> is_space c))
   \<and> concat (py_split q) = filter (\<lambda>c. \<not> is_space c) q
   \<and> (keywords_of q = [] \<longrightarrow>
        ask_retrieve w q
          = ([GetDocuments ''memorynote'' (PDict []) 20],
             case get_documents w ''memorynote'' (PDict []) 20 of
               Inl e \<Rightarrow> [] | Inr mems \<Rightarrow> mems))
   \<and> (py_strip (question payload) \<noteq> [] \<longrightarrow> keywords_of (py_strip (question payload)) = [] \<longrightarrow>
        (\<exists>more. fst (ask_question w payload)
                   = GetDocuments ''memorynote'' (PDict []) 20 # more)
        \<and> (\<forall>mems c. get_documents w ''memorynote'' (PDict []) 20 = Inr mems \<longrightarrow>
              ask_context mems = Inr c \<longrightarrow>
              snd (ask_question w payload)
                = json_response [(''answer'',
                        snd (translate_best_effort w (q_target_lang payload) (ask_answer c)))]))"
proof (intro conjI impI allI ballI)
  show "keywords_of q = map py_lower (filter (\<lambda>t. 3 < length t) (py_split q))"
    by (simp add: keywords_of_def)
next
  fix t assume "t \<in> set (py_split q)"
  then have "t \<noteq> [] \<and> (\<forall>c \<in> set t. \<not> is_space c)"
    using split_ws_tokens [of "[]" t q] by (simp add: py_split_def)
  then show "t \<noteq> []" and "\<And>c. c \<in> set t \<Longrightarrow> \<not> is_space c" by simp_all
next
  show "concat (py_split q) = filter (\<lambda>c. \<not> is_space c) q"
    by (simp add: py_split_def split_ws_concat)
next
  assume "keywords_of q = []"
  then show "ask_retrieve w q
          = ([GetDocuments ''memorynote'' (PDict []) 20],
             case get_documents w ''memorynote'' (PDict []) 20 of
               Inl e \<Rightarrow> [] | Inr mems \<Rightarrow> mems)"
    by (simp add: ask_retrieve_def ask_filter_def Let_def)
next
  assume ne: "py_strip (question payload) \<noteq> []"
    and k: "keywords_of (py_strip (question payload)) = []"
  have f: "ask_filter (keywords_of (py_strip (question payload))) = PDict []"
    using k by (simp add: ask_filter_def)
  obtain calls1 mems where r: "ask_retrieve w (py_strip (question payload)) = (calls1, mems)"
    by (cases "ask_retrieve w (py_strip (question payload))")
  have c1: "calls1 = [GetDocuments ''memorynote'' (PDict []) 20]"
    using ask_retrieve_calls [of w "py_strip (question payload)"] r f by simp
  show "\<exists>more. fst (ask_question w payload) = GetDocuments ''memorynote'' (PDict []) 20 # more"
    using ne r c1
    by (cases "ask_context mems")
       (auto simp: ask_question_def Let_def split: prod.splits)
next
  fix mems c
  assume ne: "py_strip (question payload) \<noteq> []"
    and k: "keywords_of (py_strip (question payload)) = []"
    and st: "get_documents w ''memorynote'' (PDict []) 20 = Inr mems"
    and a: "ask_context mems = Inr c"
  have f: "ask_filter (keywords_of (py_strip (question payload))) = PDict []"
    using k by (simp add: ask_filter_def)
  have "snd (ask_retrieve w (py_strip (question payload))) = mems"
    using st f by (simp add: ask_retrieve_notes)
  then have "ask_context (snd (ask_retrieve w (py_strip (question payload)))) = Inr c"
    using a by simp
  from ask_question_answer [OF ne this]
  show "snd (ask_question w payload)
                = json_response [(''answer'',
                        snd (translate_best_effort w (q_target_lang payload) (ask_answer c)))]"
    by simp
qed

theorem ask_keywords_and_unfiltered_query_witness:
  "keywords_of ''Who is it?'' = []
   \<and> hd (fst (ask_question sample_world \<lparr>question = ''  Who is it?  '', q_target_lang = None\<rparr>))
       = GetDocuments ''memorynote'' (PDict []) 20
   \<and> keywords_of ''What does the RiboSome build'' = [''what'', ''does'', ''ribosome'', ''build'']"
proof -
  have strip: "py_strip ''  Who is it?  '' = ''Who is it?''"
    by (simp add: py_strip_def is_space_def)
  have k: "keywords_of ''Who is it?'' = []"
    by (simp add: keywords_of_def py_split_def is_space_def)
  have ne: "py_strip (question \<lparr>question = ''  Who is it?  '', q_target_lang = None\<rparr>) \<noteq> []"
    by (simp add: strip)
  have k': "keywords_of (py_strip (question \<lparr>question = ''  Who is it?  '', q_target_lang = None\<rparr>))
              = []"
    by (simp add: strip k)
  from ask_keywords_and_unfiltered_query [of _ sample_world
      "\<lparr>question = ''  Who is it?  '', q_target_lang = None\<rparr>",
      THEN conjunct2, THEN conjunct2, THEN conjunct2, THEN conjunct2, THEN mp, OF ne,
      THEN mp, OF k', THEN conjunct1]
  have h: "hd (fst (ask_question sample_world
                 \<lparr>question = ''  Who is it?  '', q_target_lang = None\<rparr>))
             = GetDocuments ''memorynote'' (PDict []) 20"
    by auto
  have l: "keywords_of ''What does the RiboSome build''
             = [''what'', ''does'', ''ribosome'', ''build'']"
    by code_simp
  show ?thesis using k h l by simp
qed

text \<open>
  C5. \<open>POST /api/ask\<close> with a question that is empty after stripping ends in an
  \<open>HTTPException\<close> with status 400, before any outside call. With a question that is not,
  and a retrieval that gives no notes (the store returns none, or raises), the answer
  before translation is the fixed fallback message. The response is 200 with this
  message when no target language is given, and also when the translation service is
  asked and its reply is not a dict with the key \<open>translatedText\<close>. Otherwise the
  response is 200 with the answer after translation if that value can be rendered as
  JSON, and the request ends with status 500 if it cannot. The latter happens: with a
  target language and the reply \<open>{"translatedText": NaN}\<close> the request is not answered
  with 200.
\<close>

theorem ask_empty_rejected_no_notes_fallback:
  "(py_strip (question payload) = [] \<longrightarrow>
      ask_question w payload = ([], Inl (HTTPException 400 ''Question is required'')))
   \<and> (py_strip (question payload) \<noteq> [] \<longrightarrow>
        (get_documents w ''memorynote''
             (ask_filter (keywords_of (py_strip (question payload)))) 20 = Inr []
         \<or> (\<exists>e. get_documents w ''memorynote''
             (ask_filter (keywords_of (py_strip (question payload)))) 20 = Inl e)) \<longrightarrow>
        (\<forall>answer.
           answer = snd (translate_best_effort w (q_target_lang payload)
              ''I couldn't find related notes yet. Try saving key facts first, or ask a more specific question.'')
           \<longrightarrow> snd (ask_question w payload)
                 = (if json_renderable answer then Inr [(''answer'', answer)]
                    else Inl (Unhandled ''ValueError'')))
        \<and> (q_target_lang payload = None \<or> q_target_lang payload = Some []
            \<or> (\<forall>d. post w (TRANSLATE_URL w)
                      [(''q'', ''I couldn't find related notes yet. Try saving key facts first, or ask a more specific question.''),
                       (''source'', ''auto''),
                       (''target'', the (q_target_lang payload))] = Inr (Inr (PDict d))
                    \<longrightarrow> ''translatedText'' \<notin> fst ` set d)
            \<longrightarrow> snd (ask_question w payload)
               = Inr [(''answer'', PStr
              ''I couldn't find related notes yet. Try saving key facts first, or ask a more specific question.'')]))"
proof (intro conjI impI allI)
  assume "py_strip (question payload) = []"
  then show "ask_question w payload = ([], Inl (HTTPException 400 ''Question is required''))"
    by (simp add: ask_question_def)
next
  let ?fb = "''I couldn't find related notes yet. Try saving key facts first, or ask a more specific question.''"
  fix answer
  assume ne: "py_strip (question payload) \<noteq> []"
    and none: "get_documents w ''memorynote''
             (ask_filter (keywords_of (py_strip (question payload)))) 20 = Inr []
         \<or> (\<exists>e. get_documents w ''memorynote''
             (ask_filter (keywords_of (py_strip (question payload)))) 20 = Inl e)"
    and an: "answer = snd (translate_best_effort w (q_target_lang payload) ?fb)"
  have "snd (ask_retrieve w (py_strip (question payload))) = []"
    using none by (auto simp: ask_retrieve_notes)
  then have ctx: "ask_context (snd (ask_retrieve w (py_strip (question payload)))) = Inr []"
    by (simp add: ask_context_def)
  have fb: "ask_answer [] = ?fb"
    by (simp add: ask_answer_def fallback_answer_def)
  from ask_question_answer [OF ne ctx]
  show "snd (ask_question w payload)
          = (if json_renderable answer then Inr [(''answer'', answer)]
             else Inl (Unhandled ''ValueError''))"
    by (simp add: fb an json_response_single)
next
  let ?fb = "''I couldn't find related notes yet. Try saving key facts first, or ask a more specific question.''"
  assume ne: "py_strip (question payload) \<noteq> []"
    and none: "get_documents w ''memorynote''
             (ask_filter (keywords_of (py_strip (question payload)))) 20 = Inr []
         \<or> (\<exists>e. get_documents w ''memorynote''
             (ask_filter (keywords_of (py_strip (question payload)))) 20 = Inl e)"
    and off: "q_target_lang payload = None \<or> q_target_lang payload = Some []
            \<or> (\<forall>d. post w (TRANSLATE_URL w)
                      [(''q'', ?fb), (''source'', ''auto''),
                       (''target'', the (q_target_lang payload))] = Inr (Inr (PDict d))
                    \<longrightarrow> ''translatedText'' \<notin> fst ` set d)"
  have "snd (ask_retrieve w (py_strip (question payload))) = []"
    using none by (auto simp: ask_retrieve_notes)
  then have ctx: "ask_context (snd (ask_retrieve w (py_strip (question payload)))) = Inr []"
    by (simp add: ask_context_def)
  have fb: "ask_answer [] = ?fb"
    by (simp add: ask_answer_def fallback_answer_def)
  have keep: "snd (translate_best_effort w (q_target_lang payload) ?fb) = PStr ?fb"
  proof (cases "q_target_lang payload")
    case None
    then show ?thesis by (simp add: translate_best_effort_def)
  next
    case (Some t)
    show ?thesis
    proof (cases "t = []")
      case True
      then show ?thesis using Some by (simp add: translate_best_effort_def)
    next
      case False
      then have "\<forall>d. post w (TRANSLATE_URL w) [(''q'', ?fb), (''source'', ''auto''), (''target'', t)]
                       = Inr (Inr (PDict d)) \<longrightarrow> ''translatedText'' \<notin> fst ` set d"
        using off Some by simp
      then have "\<forall>d. post w (TRANSLATE_URL w) [(''q'', ?fb), (''source'', ''auto''), (''target'', t)]
                       = Inr (Inr (PDict d)) \<longrightarrow> map_of d ''translatedText'' = None"
        by (simp add: map_of_eq_None_iff)
      then show ?thesis
        using Some False
        by (auto simp: translate_best_effort_def Let_def dict_get_def
                 split: sum.splits pyval.splits option.splits)
    qed
  qed
  from ask_question_answer [OF ne ctx]
  show "snd (ask_question w payload) = Inr [(''answer'', PStr ?fb)]"
    by (simp add: fb keep json_response_single)
qed

theorem ask_empty_rejected_no_notes_fallback_witness:
  "ask_question offline_world \<lparr>question = ''   '', q_target_lang = None\<rparr>
     = ([], Inl (HTTPException 400 ''Question is required''))
   \<and> snd (ask_question offline_world \<lparr>question = ''What is ATP?'', q_target_lang = None\<rparr>)
     = Inr [(''answer'', PStr
         ''I couldn't find related notes yet. Try saving key facts first, or ask a more specific question.'')]
   \<and> snd (ask_question empty_store_world \<lparr>question = ''What is ATP?'', q_target_lang = Some ''es''\<rparr>)
     = Inr [(''answer'', PStr ''hola'')]"
proof -
  let ?blank = "\<lparr>question = ''   '', q_target_lang = None\<rparr>"
  let ?ask = "\<lparr>question = ''What is ATP?'', q_target_lang = None\<rparr>"
  let ?ask_es = "\<lparr>question = ''What is ATP?'', q_target_lang = Some ''es''\<rparr>"
  have e: "py_strip (question ?blank) = []"
    by (simp add: py_strip_def is_space_def)
  have ne: "py_strip (question ?ask) \<noteq> []"
    by (simp add: py_strip_def is_space_def)
  have ne_es: "py_strip (question ?ask_es) \<noteq> []"
    by (simp add: py_strip_def is_space_def)
  have tl: "q_target_lang ?ask = None" 
    by simp
  have down: "get_documents offline_world ''memorynote''
                (ask_filter (keywords_of (py_strip (question ?ask)))) 20 = Inr []
              \<or> (\<exists>e. get_documents offline_world ''memorynote''
                (ask_filter (keywords_of (py_strip (question ?ask)))) 20 = Inl e)"
    by (simp add: offline_world_def)
  have empty: "get_documents empty_store_world ''memorynote''
                (ask_filter (keywords_of (py_strip (question ?ask_es)))) 20 = Inr []
              \<or> (\<exists>e. get_documents empty_store_world ''memorynote''
                (ask_filter (keywords_of (py_strip (question ?ask_es)))) 20 = Inl e)"
    by (simp add: empty_store_world_def)
  note a = ask_empty_rejected_no_notes_fallback [of ?blank offline_world,
      THEN conjunct1, THEN mp, OF e]
  note b = ask_empty_rejected_no_notes_fallback [of ?ask offline_world,
      THEN conjunct2, THEN mp, OF ne, THEN mp, OF down, THEN conjunct2, THEN mp,
      OF disjI1, OF tl]
  note c = ask_empty_rejected_no_notes_fallback [of ?ask_es empty_store_world,
      THEN conjunct2, THEN mp, OF ne_es, THEN mp, OF empty, THEN conjunct1,
      THEN spec, THEN mp, OF refl]
  have c': "snd (ask_question empty_store_world ?ask_es) = Inr [(''answer'', PStr ''hola'')]"
    using c
    by (simp add: translate_best_effort_def empty_store_world_def sample_world_def dict_get_def)
  show ?thesis using a b c' by (intro conjI)
qed

text \<open>
  The store cannot be reached, a target language is given and the translation service
  answers \<open>{"translatedText": NaN}\<close>: the question is not empty, the retrieval gives no
  notes, and the request ends with status 500.
\<close>

theorem ask_nonfinite_translation_fails:
  "py_strip ''What is ATP?'' \<noteq> []
   \<and> get_documents nonfinite_world ''memorynote''
         (ask_filter (keywords_of (py_strip ''What is ATP?''))) 20
       = Inl ''Database not available''
   \<and> snd (ask_question nonfinite_world \<lparr>question = ''What is ATP?'', q_target_lang = Some ''es''\<rparr>)
       = Inl (Unhandled ''ValueError'')"
proof -
  let ?ask = "\<lparr>question = ''What is ATP?'', q_target_lang = Some ''es''\<rparr>"
  have ne: "py_strip (question ?ask) \<noteq> []"
    by (simp add: py_strip_def is_space_def)
  have st: "get_documents nonfinite_world ''memorynote'' f 20 = Inl ''Database not available''"
    for f
    by (simp add: nonfinite_world_def)
  have "snd (ask_retrieve nonfinite_world (py_strip (question ?ask))) = []"
    by (simp add: ask_retrieve_notes st)
  then have ctx: "ask_context (snd (ask_retrieve nonfinite_world (py_strip (question ?ask))))
                    = Inr []"
    by (simp add: ask_context_def)
  have tr: "snd (translate_best_effort nonfinite_world (Some ''es'') s) = PFloat NaN" for s
    by (simp add: translate_best_effort_def nonfinite_world_def dict_get_def)
  have "snd (ask_question nonfinite_world ?ask) = Inl (Unhandled ''ValueError'')"
    using ask_question_answer [OF ne ctx] by (simp add: tr json_response_single)
  then show ?thesis using ne st by simp
qed

text \<open>
  C7. In \<open>POST /api/ask\<close> the context, when it is built, is the first 2000 characters of
  the content fields of the retrieved records, the empty string for a record without
  one, joined by newlines in the order of the store; so it is never longer than 2000
  characters. It is built whenever every content field that is present is a string
  (\<open>"\n".join\<close> raises \<open>TypeError\<close> on any other value), and it is the context from which
  the handler makes its answer.
\<close>

theorem ask_context_joined_truncated:
  "(\<forall>c. ask_context mems = Inr c \<longrightarrow>
      c = take 2000 (py_join ''\<newline>''
            (map (\<lambda>m. case dict_get m ''content'' (PStr '''') of PStr s \<Rightarrow> s | _ \<Rightarrow> []) mems))
      \<and> length c \<le> 2000)
   \<and> ((\<forall>m \<in> set mems. \<exists>s. dict_get m ''content'' (PStr '''') = PStr s) \<longrightarrow>
        (\<exists>c. ask_context mems = Inr c))
   \<and> (py_strip (question payload) \<noteq> [] \<longrightarrow>
        get_documents w ''memorynote'' (ask_filter (keywords_of (py_strip (question payload)))) 20
          = Inr mems \<longrightarrow>
        (\<forall>c. ask_context mems = Inr c \<longrightarrow>
           snd (ask_question w payload)
             = json_response [(''answer'',
                     snd (translate_best_effort w (q_target_lang payload) (ask_answer c)))]))"
proof (intro conjI allI impI)
  fix c assume a: "ask_context mems = Inr c"
  show "c = take 2000 (py_join ''\<newline>''
            (map (\<lambda>m. case dict_get m ''content'' (PStr '''') of PStr s \<Rightarrow> s | _ \<Rightarrow> []) mems))"
    using a by (rule ask_context_Inr)
  then have "c = take 2000 (py_join ''\<newline>''
            (map (\<lambda>m. case dict_get m ''content'' (PStr '''') of PStr s \<Rightarrow> s | _ \<Rightarrow> []) mems))" .
  then have "length c = min (length (py_join ''\<newline>''
            (map (\<lambda>m. case dict_get m ''content'' (PStr '''') of PStr s \<Rightarrow> s | _ \<Rightarrow> []) mems))) 2000"
    by (simp only: length_take)
  then show "length c \<le> 2000" by simp
next
  assume "\<forall>m \<in> set mems. \<exists>s. dict_get m ''content'' (PStr '''') = PStr s"
  then show "\<exists>c. ask_context mems = Inr c" by (rule ask_context_strings)
next
  fix c
  assume ne: "py_strip (question payload) \<noteq> []"
    and st: "get_documents w ''memorynote''
               (ask_filter (keywords_of (py_strip (question payload)))) 20 = Inr mems"
    and a: "ask_context mems = Inr c"
  have "snd (ask_retrieve w (py_strip (question payload))) = mems"
    using st by (simp add: ask_retrieve_notes)
  then have "ask_context (snd (ask_retrieve w (py_strip (question payload)))) = Inr c"
    using a by simp
  from ask_question_answer [OF ne this]
  show "snd (ask_question w payload)
             = json_response [(''answer'',
                     snd (translate_best_effort w (q_target_lang payload) (ask_answer c)))]"
    by simp
qed

theorem ask_context_joined_truncated_witness:
  "ask_context sample_notes = Inr ''Mitochondria make ATP.\<newline>Ribosomes build proteins.''
   \<and> (\<exists>c. ask_context [[(''content'', PStr (replicate 3000 (CHR ''a'')))], [(''tags'', PList [])]]
              = Inr c \<and> c = replicate 2000 (CHR ''a'') \<and> length c \<le> 2000)"
proof -
  let ?big = "[[(''content'', PStr (replicate 3000 (CHR ''a'')))], [(''tags'', PList [])]]"
  have s1: "\<forall>m \<in> set sample_notes. \<exists>s. dict_get m ''content'' (PStr '''') = PStr s"
    by (simp add: sample_notes_def dict_get_def)
  have s2: "\<forall>m \<in> set ?big. \<exists>s. dict_get m ''content'' (PStr '''') = PStr s"
    by (simp add: dict_get_def)
  from ask_context_joined_truncated [of sample_notes, THEN conjunct2, THEN conjunct1,
      THEN mp, OF s1]
  obtain c1 where c1: "ask_context sample_notes = Inr c1" by blast
  from ask_context_joined_truncated [of sample_notes, THEN conjunct1, rule_format, OF c1]
  have "c1 = ''Mitochondria make ATP.\<newline>Ribosomes build proteins.''"
    by (simp add: sample_notes_def dict_get_def)
  with c1 have first: "ask_context sample_notes
                         = Inr ''Mitochondria make ATP.\<newline>Ribosomes build proteins.''"
    by simp
  from ask_context_joined_truncated [of ?big, THEN conjunct2, THEN conjunct1, THEN mp, OF s2]
  obtain c2 where c2: "ask_context ?big = Inr c2" by blast
  from ask_context_joined_truncated [of ?big, THEN conjunct1, rule_format, OF c2]
  have "c2 = replicate 2000 (CHR ''a'') \<and> length c2 \<le> 2000"
    by (simp add: dict_get_def)
  with c2 first show ?thesis by blast
qed

end
